theory Spec2Isabelle
  imports Complex_Main "HOL-Library.Word" "HOL-Library.Log_Nat"
begin

unbundle bit_operations_syntax

section \<open>The window-overlay native module (src/native/window-overlay.cc)\<close>

text \<open>
  The module exports two N-API functions, \<open>setWindowCollectionBehavior\<close> and
  \<open>getNSWindowFromHandle\<close>. Both talk to AppKit through Objective-C messages. The
  embedding makes the three things they touch explicit:
  \<^item> the JavaScript values handed in and out (\<open>js_value\<close>);
  \<^item> the AppKit side: the window objects, the array \<open>[NSApp windows]\<close> and the lookup
    \<open>[NSApp windowWithWindowNumber:]\<close> (\<open>appkit\<close>);
  \<^item> how a call ends: a returned value, a thrown JavaScript exception, or undefined
    behaviour of the C++ (\<open>outcome\<close>).
\<close>

subsection \<open>JavaScript values\<close>

text \<open>
  A JavaScript Number is an IEEE double: a finite value (a rational here, the doubles being
  a subset of the rationals), a NaN or an infinity.
\<close>

datatype js_number = Finite rat | NaN | PosInfinity | NegInfinity

datatype js_value =
    JUndefined
  | JNull
  | JBoolean bool
  | JNumber js_number
  | JString string
  | JBuffer "8 word list"

datatype js_error = TypeError string | Error string

subsection \<open>The AppKit side\<close>

text \<open>
  An \<open>NSWindow*\<close> is a 64-bit address, \<open>nil\<close> being 0. Of an \<open>NSWindow\<close> the code reads
  \<open>windowNumber\<close> (an \<open>NSInteger\<close>: 64 bits, signed) and writes \<open>collectionBehavior\<close>
  (an \<open>NSUInteger\<close> option set: 64 bits, unsigned).
\<close>

type_synonym addr = "64 word"

definition nil :: addr where
  "nil = 0"

record nswindow =
  windowNumber :: "64 word"
  collectionBehavior :: "64 word"

text \<open>The Objective-C messages the module sends, as they appear in the source.\<close>

datatype msg =
    M_windows
  | M_windowNumber addr
  | M_setCollectionBehavior addr "64 word"
  | M_windowWithWindowNumber "64 word"

text \<open>
  \<open>heap\<close> holds the live window objects, \<open>windows\<close> is the array that
  \<open>[[NSApplication sharedApplication] windows]\<close> returns (in its enumeration order),
  \<open>registry\<close> is what \<open>windowWithWindowNumber:\<close> answers, and \<open>msgs\<close> records the
  messages sent so far, oldest first.
\<close>

record appkit =
  heap :: "addr \<Rightarrow> nswindow option"
  windows :: "addr list"
  registry :: "64 word \<Rightarrow> addr"
  msgs :: "msg list"

datatype outcome = Return js_value | Throw js_error | Fault

definition sent :: "msg \<Rightarrow> appkit \<Rightarrow> appkit" where
  "sent m s = s\<lparr>msgs := msgs s @ [m]\<rparr>"

text \<open>\<open>[[NSApplication sharedApplication] windows]\<close>\<close>

definition app_windows :: "appkit \<Rightarrow> appkit \<times> addr list" where
  "app_windows s = (sent M_windows s, windows s)"

text \<open>
  \<open>[window windowNumber]\<close>. A message to an address that holds no live window is
  undefined behaviour: \<open>None\<close>.
\<close>

definition get_windowNumber :: "addr \<Rightarrow> appkit \<Rightarrow> (appkit \<times> 64 word) option" where
  "get_windowNumber window s =
     (case heap s window of
        None \<Rightarrow> None
      | Some w \<Rightarrow> Some (sent (M_windowNumber window) s, windowNumber w))"

text \<open>
  \<open>[window setCollectionBehavior:behavior]\<close>: the property is assigned, not merged.
  AppKit is taken to accept every mask, as the specification does. The
  \<open>@autoreleasepool\<close> blocks of the source have no effect on the state modelled here.
\<close>

definition setCollectionBehavior :: "addr \<Rightarrow> 64 word \<Rightarrow> appkit \<Rightarrow> appkit option" where
  "setCollectionBehavior window behavior s =
     (case heap s window of
        None \<Rightarrow> None
      | Some w \<Rightarrow>
          Some (sent (M_setCollectionBehavior window behavior)
                  (s\<lparr>heap := (heap s)(window \<mapsto> w\<lparr>collectionBehavior := behavior\<rparr>)\<rparr>)))"

text \<open>\<open>[[NSApplication sharedApplication] windowWithWindowNumber:n]\<close>\<close>

definition windowWithWindowNumber :: "64 word \<Rightarrow> appkit \<Rightarrow> appkit \<times> addr" where
  "windowWithWindowNumber n s = (sent (M_windowWithWindowNumber n) s, registry s n)"

subsection \<open>N-API conversions\<close>

text \<open>
  \<open>Napi::Number::Uint32Value\<close> is \<open>napi_get_value_uint32\<close>: on a Number it is ECMAScript's
  ToUint32 (NaN and the infinities give 0, a finite value is truncated towards zero and
  reduced modulo \<open>2^32\<close>); on any other value the status is \<open>napi_number_expected\<close>, which
  the C++ wrapper turns into a TypeError. The model follows the build of the wrapper with
  C++ exceptions, where that error leaves the function at once.
\<close>

definition js_truncate :: "rat \<Rightarrow> int" where
  "js_truncate q = (if q < 0 then \<lceil>q\<rceil> else \<lfloor>q\<rfloor>)"

fun ToUint32 :: "js_number \<Rightarrow> 32 word" where
  "ToUint32 (Finite q) = word_of_int (js_truncate q)"
| "ToUint32 NaN = 0"
| "ToUint32 PosInfinity = 0"
| "ToUint32 NegInfinity = 0"

fun Uint32Value :: "js_value \<Rightarrow> js_error + 32 word" where
  "Uint32Value (JNumber x) = Inr (ToUint32 x)"
| "Uint32Value _ = Inl (TypeError ''A number was expected'')"

text \<open>
  The Number a caller passes for an argument the interface declares \<open>uint32\<close>.
\<close>

definition uint32_number :: "32 word \<Rightarrow> js_value" where
  "uint32_number w = JNumber (Finite (of_int (uint w)))"

subsection \<open>SetWindowCollectionBehavior\<close>

text \<open>
  The loop \<open>for (NSWindow* window in windows)\<close> of lines 25 to 32. The result is
  \<open>Some\<close> when the body returned from the function, \<open>None\<close> when the loop ran to its
  end. \<open>[window windowNumber] == windowId\<close> compares an \<open>NSInteger\<close> with a
  \<open>uint32_t\<close>: the id is converted to the 64-bit signed type, which zero-extends it.
\<close>

fun for_windows :: "32 word \<Rightarrow> 64 word \<Rightarrow> addr list \<Rightarrow> appkit \<Rightarrow> appkit \<times> outcome option" where
  "for_windows windowId behavior [] s = (s, None)"
| "for_windows windowId behavior (window # rest) s =
     (if window = nil then for_windows windowId behavior rest s
      else
        case get_windowNumber window s of
          None \<Rightarrow> (s, Some Fault)
        | Some (s1, n) \<Rightarrow>
            if n = ucast windowId then
              (case setCollectionBehavior window behavior s1 of
                 None \<Rightarrow> (s1, Some Fault)
               | Some s2 \<Rightarrow> (s2, Some (Return (JBoolean True))))
            else for_windows windowId behavior rest s1)"

text \<open>
  Lines 8 to 43. \<open>unsigned long behavior = ...Uint32Value()\<close> widens the 32-bit value to
  64 bits without changing it.
\<close>

definition SetWindowCollectionBehavior :: "appkit \<Rightarrow> js_value list \<Rightarrow> appkit \<times> outcome" where
  "SetWindowCollectionBehavior s info =
     (if length info < 2 then
        (s, Throw (TypeError ''Expected 2 arguments: windowId and behavior''))
      else
        case Uint32Value (info ! 0) of
          Inl e \<Rightarrow> (s, Throw e)
        | Inr windowId \<Rightarrow>
            (case Uint32Value (info ! 1) of
               Inl e \<Rightarrow> (s, Throw e)
             | Inr b \<Rightarrow>
                 (let behavior = (ucast b :: 64 word) in
                  (case app_windows s of
                     (s1, ws) \<Rightarrow>
                       (case for_windows windowId behavior ws s1 of
                          (s2, Some r) \<Rightarrow> (s2, r)
                        | (s2, None) \<Rightarrow>
                            (case windowWithWindowNumber (ucast windowId) s2 of
                               (s3, targetWindow) \<Rightarrow>
                                 (if targetWindow \<noteq> nil then
                                    (case setCollectionBehavior targetWindow behavior s3 of
                                       None \<Rightarrow> (s3, Fault)
                                     | Some s4 \<Rightarrow> (s4, Return (JBoolean True)))
                                  else (s3, Return (JBoolean False)))))))))"

subsection \<open>GetNSWindowFromHandle\<close>

text \<open>
  \<open>info[0].As<Napi::Buffer<void>>()\<close> followed by \<open>buffer.Data()\<close> yields the bytes of a
  Buffer; for a value that is no Buffer the wrapper reports \<open>napi_invalid_arg\<close> as an
  Error.
\<close>

fun Buffer_Data :: "js_value \<Rightarrow> js_error + 8 word list" where
  "Buffer_Data (JBuffer bytes) = Inr bytes"
| "Buffer_Data _ = Inl (Error ''Invalid argument'')"

text \<open>
  \<open>*((NSWindow**)ptr)\<close> reads a pointer, 8 bytes in little-endian order, at the start of
  the data. The source checks no length: with fewer than 8 bytes the read runs past the
  end of the buffer, which is undefined behaviour (\<open>None\<close>).
\<close>

fun le_bytes :: "8 word list \<Rightarrow> 64 word" where
  "le_bytes [] = 0"
| "le_bytes (b # bs) = ucast b OR push_bit 8 (le_bytes bs)"

definition read_pointer :: "8 word list \<Rightarrow> addr option" where
  "read_pointer bytes = (if length bytes < 8 then None else Some (le_bytes (take 8 bytes)))"

text \<open>
  \<open>Napi::Number::New(env, [window windowNumber])\<close> takes a \<open>double\<close>: the \<open>NSInteger\<close> is
  converted, exactly when its magnitude has at most 53 bits, and rounded to the nearest
  double (ties to even) otherwise.
\<close>

definition round_to_double :: "int \<Rightarrow> int" where
  "round_to_double n =
     (let a = \<bar>n\<bar> in
      if a < 2 ^ 53 then n
      else
        let e = nat (bitlen a) - 53;
            q = a div 2 ^ e;
            r = a mod 2 ^ e;
            h = 2 ^ (e - 1);
            q' = (if h < r \<or> (r = h \<and> odd q) then q + 1 else q)
        in sgn n * (q' * 2 ^ e))"

definition Number_New :: "64 word \<Rightarrow> js_value" where
  "Number_New n = JNumber (Finite (of_int (round_to_double (sint n))))"

text \<open>Lines 46 to 68.\<close>

definition GetNSWindowFromHandle :: "appkit \<Rightarrow> js_value list \<Rightarrow> appkit \<times> outcome" where
  "GetNSWindowFromHandle s info =
     (if length info < 1 then (s, Return JNull)
      else
        case Buffer_Data (info ! 0) of
          Inl e \<Rightarrow> (s, Throw e)
        | Inr bytes \<Rightarrow>
            (case read_pointer bytes of
               None \<Rightarrow> (s, Fault)
             | Some window \<Rightarrow>
                 (if window \<noteq> nil then
                    (case get_windowNumber window s of
                       None \<Rightarrow> (s, Fault)
                     | Some (s1, n) \<Rightarrow> (s1, Return (Number_New n)))
                  else (s, Return JNull))))"

subsection \<open>The platform's guarantees\<close>

text \<open>
  What AppKit promises about the state the module reads: \<open>nil\<close> is no object, the array
  of windows holds live windows only (an \<open>NSArray\<close> retains its elements and never holds
  \<open>nil\<close>), and \<open>windowWithWindowNumber:\<close> answers \<open>nil\<close> or a live window.
\<close>

definition live :: "appkit \<Rightarrow> bool" where
  "live s \<longleftrightarrow>
     heap s nil = None \<and>
     (\<forall>a \<in> set (windows s). heap s a \<noteq> None) \<and>
     (\<forall>n. registry s n \<noteq> nil \<longrightarrow> heap s (registry s n) \<noteq> None)"

text \<open>The window number of the object at an address, as a signed integer.\<close>

definition number_of :: "appkit \<Rightarrow> addr \<Rightarrow> int option" where
  "number_of s a = map_option (\<lambda>w. sint (windowNumber w)) (heap s a)"

text \<open>\<open>windowWithWindowNumber:\<close> answers a window that carries the number asked for.\<close>

definition registry_sound :: "appkit \<Rightarrow> bool" where
  "registry_sound s \<longleftrightarrow>
     (\<forall>n. registry s n \<noteq> nil \<longrightarrow> number_of s (registry s n) = Some (sint n))"

subsection \<open>The resolver as the specification words it\<close>

text \<open>
  Section 4.1 of the specification: scan the application's windows in enumeration
  order for the first one whose number equals the id; failing that, ask the registry for
  the window of that number; failing that too, the id is not found (\<open>None\<close>).
\<close>

definition resolve_spec :: "appkit \<Rightarrow> 32 word \<Rightarrow> addr option" where
  "resolve_spec s i =
     (case find (\<lambda>a. number_of s a = Some (uint i)) (windows s) of
        Some a \<Rightarrow> Some a
      | None \<Rightarrow>
          (if registry s (word_of_int (uint i)) = nil then None
           else Some (registry s (word_of_int (uint i)))))"

text \<open>
  Section 4.2: the behavior mutator replaces the flags of the window at the handle.
\<close>

definition applyBehavior_spec :: "addr \<Rightarrow> 32 word \<Rightarrow> appkit \<Rightarrow> (addr \<Rightarrow> nswindow option)" where
  "applyBehavior_spec a m s =
     (heap s)(a := map_option (\<lambda>w. w\<lparr>collectionBehavior := word_of_int (uint m)\<rparr>) (heap s a))"

text \<open>
  The messages that the order of section 4.1 amounts to: the array is fetched, the
  windows are asked for their number one after the other up to and including the first
  match, which is then mutated; only when no window matched is the registry asked.
\<close>

definition resolve_msgs_spec :: "appkit \<Rightarrow> 32 word \<Rightarrow> 32 word \<Rightarrow> msg list" where
  "resolve_msgs_spec s i m =
     (let miss = (\<lambda>a. number_of s a \<noteq> Some (uint i));
          b = word_of_int (uint m)
      in M_windows # map M_windowNumber (takeWhile miss (windows s)) @
         (case dropWhile miss (windows s) of
            a # _ \<Rightarrow> [M_windowNumber a, M_setCollectionBehavior a b]
          | [] \<Rightarrow>
              M_windowWithWindowNumber (word_of_int (uint i)) #
              (if registry s (word_of_int (uint i)) = nil then []
               else [M_setCollectionBehavior (registry s (word_of_int (uint i))) b])))"

subsection \<open>Example states\<close>

text \<open>
  The scenario of the specification: window A with number 42 and window B with number 7
  are open.
\<close>

definition window_A :: nswindow where
  "window_A = \<lparr>windowNumber = 42, collectionBehavior = 0x100\<rparr>"

definition window_B :: nswindow where
  "window_B = \<lparr>windowNumber = 7, collectionBehavior = 0x1\<rparr>"

definition two_windows :: appkit where
  "two_windows =
     \<lparr>heap = [0x1000 \<mapsto> window_A, 0x2000 \<mapsto> window_B],
      windows = [0x1000, 0x2000],
      registry = (\<lambda>n. if n = 42 then 0x1000 else if n = 7 then 0x2000 else nil),
      msgs = []\<rparr>"

text \<open>
  A window that has no window device yet: AppKit gives it the number -1.
\<close>

definition window_C :: nswindow where
  "window_C = \<lparr>windowNumber = - 1, collectionBehavior = 0\<rparr>"

definition deviceless_window :: appkit where
  "deviceless_window =
     \<lparr>heap = [0x3000 \<mapsto> window_C],
      windows = [0x3000],
      registry = (\<lambda>n. nil),
      msgs = []\<rparr>"

text \<open>
  A window that the registry knows and the array of windows does not list: the case the
  second lookup of the source is there for.
\<close>

definition window_D :: nswindow where
  "window_D = \<lparr>windowNumber = 5, collectionBehavior = 0\<rparr>"

definition unlisted_window :: appkit where
  "unlisted_window =
     \<lparr>heap = [0x4000 \<mapsto> window_D],
      windows = [],
      registry = (\<lambda>n. if n = 5 then 0x4000 else nil),
      msgs = []\<rparr>"

text \<open>
  AppKit documents the number of a window without a window device as zero or less. Here
  two such windows carry -1 beside window 42, and in the second state two such windows
  both carry 0.
\<close>

definition beside_deviceless :: appkit where
  "beside_deviceless =
     \<lparr>heap = [0x3000 \<mapsto> window_C, 0x3800 \<mapsto> window_C, 0x1000 \<mapsto> window_A],
      windows = [0x3000, 0x3800, 0x1000],
      registry = (\<lambda>n. if n = 42 then 0x1000 else nil),
      msgs = []\<rparr>"

definition window_Z :: nswindow where
  "window_Z = \<lparr>windowNumber = 0, collectionBehavior = 0\<rparr>"

definition two_numbered_zero :: appkit where
  "two_numbered_zero =
     \<lparr>heap = [0x5000 \<mapsto> window_Z, 0x6000 \<mapsto> window_Z],
      windows = [0x5000, 0x6000],
      registry = (\<lambda>n. nil),
      msgs = []\<rparr>"

section \<open>Auxiliary facts\<close>

subsection \<open>Sending a message changes the record of messages only\<close>

lemma heap_sent [simp]: "heap (sent m s) = heap s"
  by (simp add: sent_def)

lemma windows_sent [simp]: "windows (sent m s) = windows s"
  by (simp add: sent_def)

lemma registry_sent [simp]: "registry (sent m s) = registry s"
  by (simp add: sent_def)

lemma msgs_sent [simp]: "msgs (sent m s) = msgs s @ [m]"
  by (simp add: sent_def)

lemma number_of_sent [simp]: "number_of (sent m s) = number_of s"
  by (rule ext) (simp add: number_of_def)

lemma live_sent [simp]: "live (sent m s) = live s"
  by (simp add: live_def)

lemma number_of_msgs: "number_of (s\<lparr>msgs := x\<rparr>) = number_of s"
  by (rule ext) (simp add: number_of_def)

lemma sint_ucast_id: "sint (ucast (i :: 32 word) :: 64 word) = uint i"
proof -
  have "uint i < 2 ^ 32" using uint_bounded [of i] by simp
  then have "uint i < 2 ^ 63" by simp
  moreover have "- (2 ^ 63) \<le> uint i"
  proof -
    have "- (2 ^ 63) \<le> (0 :: int)" by simp
    also have "0 \<le> uint i" by simp
    finally show ?thesis .
  qed
  ultimately have "signed_take_bit 63 (uint i) = uint i"
    by (rule_tac signed_take_bit_int_eq_self)
  then show ?thesis by (simp add: signed_ucast_eq)
qed

lemma matches_id: "(n :: 64 word) = ucast (i :: 32 word) \<longleftrightarrow> sint n = uint i"
proof
  assume "n = ucast i" then show "sint n = uint i" by (simp add: sint_ucast_id)
next
  assume "sint n = uint i"
  then have "sint n = sint (ucast i :: 64 word)" by (simp add: sint_ucast_id)
  then show "n = ucast i" by (rule signed_word_eqI)
qed

lemma word_of_int_uint_ucast: "(word_of_int (uint (i :: 32 word)) :: 64 word) = ucast i"
  by simp

lemma for_windows_scan:
  "heap s nil = None \<Longrightarrow> \<forall>a \<in> set ws. heap s a \<noteq> None \<Longrightarrow>
   for_windows i b ws s =
     (case find (\<lambda>a. number_of s a = Some (uint i)) ws of
        None \<Rightarrow> (s\<lparr>msgs := msgs s @ map M_windowNumber ws\<rparr>, None)
      | Some a \<Rightarrow>
          (s\<lparr>heap := (heap s)(a := map_option (\<lambda>w. w\<lparr>collectionBehavior := b\<rparr>) (heap s a)),
             msgs := msgs s @ map M_windowNumber (takeWhile (\<lambda>a. number_of s a \<noteq> Some (uint i)) ws) @
                     [M_windowNumber a, M_setCollectionBehavior a b]\<rparr>,
           Some (Return (JBoolean True))))"
proof (induction ws arbitrary: s)
  case Nil
  then show ?case by simp
next
  case (Cons window rest)
  from Cons.prems obtain w where w: "heap s window = Some w" by auto
  with Cons.prems have nn: "window \<noteq> nil" by auto
  have num: "number_of s window = Some (sint (windowNumber w))"
    by (simp add: number_of_def w)
  show ?case
  proof (cases "windowNumber w = ucast i")
    case True
    then have "sint (windowNumber w) = uint i" by (simp add: matches_id)
    with w nn True show ?thesis
      by (simp add: get_windowNumber_def setCollectionBehavior_def num sent_def)
  next
    case False
    then have ne: "sint (windowNumber w) \<noteq> uint i" by (simp add: matches_id)
    have ih: "for_windows i b rest (sent (M_windowNumber window) s) = 
       (case find (\<lambda>a. number_of (sent (M_windowNumber window) s) a = Some (uint i)) rest of
        None \<Rightarrow> ((sent (M_windowNumber window) s)\<lparr>msgs := msgs (sent (M_windowNumber window) s) @ map M_windowNumber rest\<rparr>, None)
      | Some a \<Rightarrow>
          ((sent (M_windowNumber window) s)\<lparr>heap := (heap (sent (M_windowNumber window) s))(a := map_option (\<lambda>w. w\<lparr>collectionBehavior := b\<rparr>) (heap (sent (M_windowNumber window) s) a)),
             msgs := msgs (sent (M_windowNumber window) s) @ map M_windowNumber (takeWhile (\<lambda>a. number_of (sent (M_windowNumber window) s) a \<noteq> Some (uint i)) rest) @
                     [M_windowNumber a, M_setCollectionBehavior a b]\<rparr>,
           Some (Return (JBoolean True))))"
      using Cons.prems by (intro Cons.IH) simp_all
    from w nn False ne show ?thesis
      by (simp add: get_windowNumber_def num ih split: option.splits) (simp add: sent_def fun_upd_def)
  qed
qed


lemma find_None_scan:
  "find P ws = None \<Longrightarrow> takeWhile (\<lambda>a. \<not> P a) ws = ws \<and> dropWhile (\<lambda>a. \<not> P a) ws = []"
  by (induction ws) (auto split: if_splits)

lemma find_Some_scan:
  "find P ws = Some a \<Longrightarrow> \<exists>zs. dropWhile (\<lambda>a. \<not> P a) ws = a # zs"
  by (induction ws) (auto split: if_splits)

lemma SetWindowCollectionBehavior_resolve:
  assumes "live s"
  shows "SetWindowCollectionBehavior s (JNumber x # JNumber y # extra) =
     (s\<lparr>heap := (case resolve_spec s (ToUint32 x) of
                    None \<Rightarrow> heap s
                  | Some a \<Rightarrow> applyBehavior_spec a (ToUint32 y) s),
        msgs := msgs s @ resolve_msgs_spec s (ToUint32 x) (ToUint32 y)\<rparr>,
      Return (JBoolean (resolve_spec s (ToUint32 x) \<noteq> None)))"
proof -
  define i where "i = ToUint32 x"
  define m where "m = ToUint32 y"
  from assms have "heap (s\<lparr>msgs := msgs s @ [M_windows]\<rparr>) nil = None"
    and "\<forall>a \<in> set (windows s). heap (s\<lparr>msgs := msgs s @ [M_windows]\<rparr>) a \<noteq> None"
    by (simp_all add: live_def)
  from for_windows_scan [OF this, of i "ucast m"]
  have scan: "for_windows i (ucast m) (windows s) (s\<lparr>msgs := msgs s @ [M_windows]\<rparr>) =
     (case find (\<lambda>a. number_of s a = Some (uint i)) (windows s) of
        None \<Rightarrow> (s\<lparr>msgs := msgs s @ M_windows # map M_windowNumber (windows s)\<rparr>, None)
      | Some a \<Rightarrow>
          (s\<lparr>heap := (heap s)(a := map_option (\<lambda>w. w\<lparr>collectionBehavior := ucast m\<rparr>) (heap s a)),
             msgs := msgs s @ M_windows #
                     map M_windowNumber (takeWhile (\<lambda>a. number_of s a \<noteq> Some (uint i)) (windows s)) @
                     [M_windowNumber a, M_setCollectionBehavior a (ucast m)]\<rparr>,
           Some (Return (JBoolean True))))"
    by (simp add: number_of_msgs split: option.splits)
  show ?thesis
  proof (cases "find (\<lambda>a. number_of s a = Some (uint i)) (windows s)")
    case (Some a)
    from find_Some_scan [OF Some] obtain zs
      where "dropWhile (\<lambda>a. number_of s a \<noteq> Some (uint i)) (windows s) = a # zs" by auto
    with scan show ?thesis
      by (simp add: Some word_of_int_uint_ucast Let_def SetWindowCollectionBehavior_def app_windows_def resolve_spec_def
          resolve_msgs_spec_def applyBehavior_spec_def sent_def
          flip: i_def m_def)
  next
    case None
    note miss = find_None_scan [OF None]
    show ?thesis
    proof (cases "registry s (ucast i) = nil")
      case True
      with scan show ?thesis
        by (simp add: None miss word_of_int_uint_ucast Let_def SetWindowCollectionBehavior_def app_windows_def resolve_spec_def
            resolve_msgs_spec_def windowWithWindowNumber_def sent_def
            flip: i_def m_def)
    next
      case False
      with assms obtain w where "heap s (registry s (ucast i)) = Some w"
        by (auto simp: live_def)
      with False scan show ?thesis
        by (simp add: None miss word_of_int_uint_ucast Let_def SetWindowCollectionBehavior_def app_windows_def resolve_spec_def
            resolve_msgs_spec_def applyBehavior_spec_def windowWithWindowNumber_def
            setCollectionBehavior_def sent_def fun_upd_def
            flip: i_def m_def)
    qed
  qed
qed

subsection \<open>Conversions\<close>

lemma js_truncate_of_int: "js_truncate (of_int k) = k"
  by (simp add: js_truncate_def)

lemma js_truncate_numeral [simp]: "js_truncate (numeral k) = numeral k"
  by (simp add: js_truncate_def)

lemma js_truncate_0 [simp]: "js_truncate 0 = 0"
  by (simp add: js_truncate_def)

lemma js_truncate_neg_numeral [simp]: "js_truncate (- numeral k) = - numeral k"
  by (simp add: js_truncate_def)

lemma ToUint32_of_int: "ToUint32 (Finite (of_int k)) = word_of_int k"
  by (simp add: js_truncate_of_int)

lemma ToUint32_uint32: "ToUint32 (Finite (of_int (uint w))) = w"
  by (simp only: ToUint32_of_int word_of_int_uint)

lemma uint_widened: "uint (ucast (m :: 32 word) :: 64 word) = uint m"
  by (simp add: uint_up_ucast is_up)

lemma uint_widened_of_int: "uint (ucast (word_of_int b :: 32 word) :: 64 word) = b mod 2 ^ 32"
  by (simp add: uint_widened uint_word_of_int)

lemma uint_word_of_int_small:
  "0 \<le> k \<Longrightarrow> k < 2 ^ 32 \<Longrightarrow> uint (word_of_int k :: 32 word) = k"
  by (simp add: uint_word_of_int)

lemma round_to_double_small: "\<bar>n\<bar> < 2 ^ 53 \<Longrightarrow> round_to_double n = n"
  by (simp add: round_to_double_def Let_def)

lemma Number_New_small:
  assumes "0 \<le> sint n" and "sint n < 2 ^ 32"
  shows "Number_New n = JNumber (Finite (of_int (sint n)))"
proof -
  from assms have "\<bar>sint n\<bar> < 2 ^ 53" by simp
  then show ?thesis
    by (simp only: Number_New_def round_to_double_small)
qed

lemma read_pointer_empty: "read_pointer [] = None"
  by (simp add: read_pointer_def)

lemma read_pointer_null: "read_pointer (0 # 0 # 0 # 0 # 0 # 0 # 0 # 0 # bs) = Some nil"
  by (simp add: read_pointer_def nil_def)

subsection \<open>The resolver\<close>

lemma resolve_spec_live:
  assumes "live s" "resolve_spec s i = Some a"
  shows "heap s a \<noteq> None"
proof (cases "find (\<lambda>a. number_of s a = Some (uint i)) (windows s)")
  case None
  with assms show ?thesis
    by (auto simp: resolve_spec_def live_def split: if_splits)
next
  case (Some b)
  with assms have "a = b" by (simp add: resolve_spec_def)
  moreover from Some have "b \<in> set (windows s)"
    by (auto simp: find_Some_iff)
  ultimately show ?thesis using assms by (auto simp: live_def)
qed

lemma resolve_spec_number:
  assumes "registry_sound s" and "resolve_spec s i = Some a"
  shows "number_of s a = Some (uint i)"
proof (cases "find (\<lambda>a. number_of s a = Some (uint i)) (windows s)")
  case None
  with assms(2) have a: "registry s (ucast i) = a" and "a \<noteq> nil"
    by (auto simp: resolve_spec_def word_of_int_uint_ucast split: if_splits)
  with assms(1) have "number_of s a = Some (sint (ucast i :: 64 word))"
    by (auto simp: registry_sound_def)
  then show ?thesis by (simp add: sint_ucast_id)
next
  case (Some b)
  with assms(2) have "a = b" by (simp add: resolve_spec_def)
  with Some show ?thesis by (auto simp: find_Some_iff)
qed

lemma find_first_occurrence:
  "a \<in> set xs \<Longrightarrow> P a \<Longrightarrow> \<forall>b \<in> set (takeWhile (\<lambda>b. b \<noteq> a) xs). \<not> P b \<Longrightarrow>
   find P xs = Some a"
  by (induction xs) auto

lemma find_no_occurrence:
  "a \<notin> set xs \<Longrightarrow> \<forall>b \<in> set (takeWhile (\<lambda>b. b \<noteq> a) xs). \<not> P b \<Longrightarrow> find P xs = None"
  by (induction xs) auto

subsection \<open>The example states\<close>

lemma live_two_windows: "live two_windows"
  by (simp add: live_def two_windows_def nil_def)

lemma live_unlisted_window: "live unlisted_window"
  by (simp add: live_def unlisted_window_def nil_def)

lemma live_beside_deviceless: "live beside_deviceless"
  by (simp add: live_def beside_deviceless_def nil_def)

lemma registry_sound_two_windows: "registry_sound two_windows"
  by (simp add: registry_sound_def two_windows_def number_of_def nil_def window_A_def window_B_def)

section \<open>Properties\<close>

text \<open>
  C1. For a window id that resolves to a live window \<open>a\<close> and every mask, both passed
  as the \<open>uint32\<close> Numbers of the interface, \<open>SetWindowCollectionBehavior\<close> returns
  \<open>true\<close>, and afterwards the flags of \<open>a\<close> are exactly the mask: the old flags are
  replaced, none of their bits survives.
\<close>

theorem resolved_window_gets_mask:
  assumes "live s" and "resolve_spec s i = Some a"
  shows "snd (SetWindowCollectionBehavior s (uint32_number i # uint32_number m # extra)) =
           Return (JBoolean True) \<and>
         map_option (\<lambda>w. uint (collectionBehavior w))
           (heap (fst (SetWindowCollectionBehavior s (uint32_number i # uint32_number m # extra))) a) =
           Some (uint m)"
proof -
  from resolve_spec_live [OF assms] obtain w where "heap s a = Some w" by auto
  with assms show ?thesis
    by (simp only: uint32_number_def SetWindowCollectionBehavior_resolve ToUint32_uint32)
      (simp add: applyBehavior_spec_def uint_widened)
qed

theorem resolved_window_gets_mask_witness:
  "live two_windows \<and> resolve_spec two_windows 42 = Some 0x1000 \<and>
   map_option (\<lambda>w. uint (collectionBehavior w)) (heap two_windows 0x1000) = Some 0x100 \<and>
   snd (SetWindowCollectionBehavior two_windows [uint32_number 42, uint32_number 0x12]) =
     Return (JBoolean True) \<and>
   map_option (\<lambda>w. uint (collectionBehavior w))
     (heap (fst (SetWindowCollectionBehavior two_windows [uint32_number 42, uint32_number 0x12])) 0x1000) =
     Some 0x12"
proof -
  have r: "resolve_spec two_windows 42 = Some 0x1000"
    by code_simp
  have old: "map_option (\<lambda>w. uint (collectionBehavior w)) (heap two_windows 0x1000) = Some 0x100"
    by code_simp
  from resolved_window_gets_mask [OF live_two_windows r, of "0x12" "[]"]
  have new: "snd (SetWindowCollectionBehavior two_windows [uint32_number 42, uint32_number 0x12]) =
       Return (JBoolean True) \<and>
     map_option (\<lambda>w. uint (collectionBehavior w))
       (heap (fst (SetWindowCollectionBehavior two_windows [uint32_number 42, uint32_number 0x12])) 0x1000) =
       Some 0x12"
    by simp
  from live_two_windows r old new show ?thesis by (intro conjI) (erule conjunct1 conjunct2 | assumption)+
qed

text \<open>
  C2. The order of resolution. On numeric arguments the function does what the resolver
  of section 4.1 says: the result and the new flags are those of \<open>resolve_spec\<close> (first
  window of the enumeration whose number is the id, else the registry's answer, else not
  found and \<open>false\<close>), and the messages sent are exactly those of that order
  (\<open>resolve_msgs_spec\<close>): no window after the first match is asked, and the registry is
  asked only after the whole scan failed.
\<close>

theorem resolution_order:
  "live s \<Longrightarrow>
   SetWindowCollectionBehavior s (JNumber x # JNumber y # extra) =
     (s\<lparr>heap := (case resolve_spec s (ToUint32 x) of
                    None \<Rightarrow> heap s
                  | Some a \<Rightarrow> applyBehavior_spec a (ToUint32 y) s),
        msgs := msgs s @ resolve_msgs_spec s (ToUint32 x) (ToUint32 y)\<rparr>,
      Return (JBoolean (resolve_spec s (ToUint32 x) \<noteq> None)))"
  by (rule SetWindowCollectionBehavior_resolve)

theorem resolution_order_witness:
  "live two_windows \<and>
   SetWindowCollectionBehavior two_windows [JNumber (Finite 7), JNumber (Finite 18)] =
     (two_windows\<lparr>heap := applyBehavior_spec 0x2000 18 two_windows,
        msgs := [M_windows, M_windowNumber 0x1000, M_windowNumber 0x2000,
                 M_setCollectionBehavior 0x2000 18]\<rparr>,
      Return (JBoolean True)) \<and>
   SetWindowCollectionBehavior two_windows [JNumber (Finite 99), JNumber (Finite 18)] =
     (two_windows\<lparr>heap := heap two_windows,
        msgs := [M_windows, M_windowNumber 0x1000, M_windowNumber 0x2000,
                 M_windowWithWindowNumber 99]\<rparr>,
      Return (JBoolean False)) \<and>
   live unlisted_window \<and>
   SetWindowCollectionBehavior unlisted_window [JNumber (Finite 5), JNumber (Finite 18)] =
     (unlisted_window\<lparr>heap := applyBehavior_spec 0x4000 18 unlisted_window,
        msgs := [M_windows, M_windowWithWindowNumber 5, M_setCollectionBehavior 0x4000 18]\<rparr>,
      Return (JBoolean True))"
proof -
  have r7: "resolve_spec two_windows 7 = Some 0x2000"
    and r99: "resolve_spec two_windows 99 = None"
    and r5: "resolve_spec unlisted_window 5 = Some 0x4000"
    by code_simp+
  have m7: "resolve_msgs_spec two_windows 7 18 =
      [M_windows, M_windowNumber 0x1000, M_windowNumber 0x2000, M_setCollectionBehavior 0x2000 18]"
    and m99: "resolve_msgs_spec two_windows 99 18 =
      [M_windows, M_windowNumber 0x1000, M_windowNumber 0x2000, M_windowWithWindowNumber 99]"
    and m5: "resolve_msgs_spec unlisted_window 5 18 =
      [M_windows, M_windowWithWindowNumber 5, M_setCollectionBehavior 0x4000 18]"
    by code_simp+
  have e: "msgs two_windows = []" "msgs unlisted_window = []"
    by (simp_all add: two_windows_def unlisted_window_def)
  from resolution_order [OF live_two_windows, of "Finite 7" "Finite 18" "[]"]
    resolution_order [OF live_two_windows, of "Finite 99" "Finite 18" "[]"]
    resolution_order [OF live_unlisted_window, of "Finite 5" "Finite 18" "[]"]
  show ?thesis
    by (simp add: r7 r99 r5 m7 m99 m5 e live_two_windows live_unlisted_window)
qed

text \<open>
  C3. For an id that neither the scan nor the registry resolves, and every mask,
  \<open>SetWindowCollectionBehavior\<close> returns \<open>false\<close> (it does not throw), and no window
  object, the window array and the registry are as before.
\<close>

theorem unresolved_returns_false:
  assumes "live s" and "resolve_spec s (ToUint32 x) = None"
  shows "snd (SetWindowCollectionBehavior s (JNumber x # JNumber y # extra)) =
           Return (JBoolean False) \<and>
         heap (fst (SetWindowCollectionBehavior s (JNumber x # JNumber y # extra))) = heap s \<and>
         windows (fst (SetWindowCollectionBehavior s (JNumber x # JNumber y # extra))) = windows s \<and>
         registry (fst (SetWindowCollectionBehavior s (JNumber x # JNumber y # extra))) = registry s"
  using assms by (simp add: SetWindowCollectionBehavior_resolve)

theorem unresolved_returns_false_witness:
  "live two_windows \<and> resolve_spec two_windows (ToUint32 (Finite 99)) = None \<and>
   snd (SetWindowCollectionBehavior two_windows [JNumber (Finite 99), JNumber (Finite 18)]) =
     Return (JBoolean False) \<and>
   heap (fst (SetWindowCollectionBehavior two_windows [JNumber (Finite 99), JNumber (Finite 18)])) =
     heap two_windows"
proof -
  have r: "resolve_spec two_windows (ToUint32 (Finite 99)) = None"
    by code_simp
  have r': "resolve_spec two_windows 99 = None"
    by code_simp
  from unresolved_returns_false [OF live_two_windows r, of "Finite 18" "[]"]
  show ?thesis
    by (simp add: r' live_two_windows)
qed

text \<open>
  C4. Called with fewer than two arguments, \<open>SetWindowCollectionBehavior\<close> throws the
  TypeError of line 12 (the specification's ArgumentError) and leaves the AppKit side as
  it was: no window is changed and no message is sent, so no window is looked up.
\<close>

theorem too_few_arguments_throws:
  "length info < 2 \<Longrightarrow>
     SetWindowCollectionBehavior s info =
       (s, Throw (TypeError ''Expected 2 arguments: windowId and behavior''))"
  by (simp add: SetWindowCollectionBehavior_def)

theorem too_few_arguments_throws_witness:
  "length [uint32_number 42] < 2 \<and>
   SetWindowCollectionBehavior two_windows [uint32_number 42] =
     (two_windows, Throw (TypeError ''Expected 2 arguments: windowId and behavior'')) \<and>
   SetWindowCollectionBehavior two_windows [] =
     (two_windows, Throw (TypeError ''Expected 2 arguments: windowId and behavior''))"
  using too_few_arguments_throws [of "[uint32_number 42]" two_windows]
    too_few_arguments_throws [of "[]" two_windows]
  by simp

text \<open>
  C5. \<open>GetNSWindowFromHandle\<close> returns \<open>null\<close> when the argument is absent and when
  the buffer starts with a null pointer. For an empty buffer it does not: the source
  reads the pointer without looking at the length of the buffer, so the read is out of
  bounds.
\<close>

theorem GetNSWindowFromHandle_empty_buffer:
  "GetNSWindowFromHandle s [] = (s, Return JNull) \<and>
   GetNSWindowFromHandle s (JBuffer (0 # 0 # 0 # 0 # 0 # 0 # 0 # 0 # bs) # extra) = (s, Return JNull) \<and>
   GetNSWindowFromHandle s (JBuffer [] # extra) = (s, Fault)"
  by (simp add: GetNSWindowFromHandle_def read_pointer_empty read_pointer_null)

text \<open>
  C6, as amended. Let \<open>W\<close> be a live window of the application, listed in its window
  array or answered by the registry for its number, whose number lies in the \<open>uint32\<close>
  range and is carried by no window that the array enumerates before \<open>W\<close>. Decoding a
  buffer that starts with the pointer to \<open>W\<close> returns the number of \<open>W\<close>, that number
  resolves to \<open>W\<close>, and \<open>SetWindowCollectionBehavior\<close> called with it returns \<open>true\<close>
  and writes the flags of \<open>W\<close>. Other windows may share a number among themselves, and
  windows enumerated after \<open>W\<close> may carry the number of \<open>W\<close>.
\<close>

theorem decode_resolve_round_trip:
  assumes "live s" and "heap s a = Some w"
    and "0 \<le> sint (windowNumber w)" and "sint (windowNumber w) < 2 ^ 32"
    and "\<forall>b \<in> set (takeWhile (\<lambda>b. b \<noteq> a) (windows s)).
           number_of s b \<noteq> Some (sint (windowNumber w))"
    and "a \<in> set (windows s) \<or> registry s (windowNumber w) = a"
    and "read_pointer bytes = Some a"
  shows "\<exists>s1 s2.
           GetNSWindowFromHandle s (JBuffer bytes # extra) =
             (s1, Return (JNumber (Finite (of_int (sint (windowNumber w)))))) \<and>
           resolve_spec s1 (ToUint32 (Finite (of_int (sint (windowNumber w))))) = Some a \<and>
           SetWindowCollectionBehavior s1
             (JNumber (Finite (of_int (sint (windowNumber w)))) # JNumber y # extra') =
             (s2, Return (JBoolean True)) \<and>
           heap s2 = (heap s)(a \<mapsto> w\<lparr>collectionBehavior := ucast (ToUint32 y)\<rparr>)"
proof -
  define n where "n = sint (windowNumber w)"
  define s1 where "s1 = sent (M_windowNumber a) s"
  from assms(1,2) have nn: "a \<noteq> nil" by (auto simp: live_def)
  with assms(2,3,4,7) have get: "GetNSWindowFromHandle s (JBuffer bytes # extra) =
      (s1, Return (JNumber (Finite (of_int n))))"
    by (simp add: GetNSWindowFromHandle_def get_windowNumber_def Number_New_small s1_def n_def)
  define iw where "iw = ToUint32 (Finite (of_int n))"
  from assms(3,4) have i: "uint iw = n"
    by (simp only: iw_def ToUint32_of_int uint_word_of_int_small n_def)
  from assms(2) have na: "number_of s a = Some n"
    by (simp add: number_of_def n_def)
  from i have "sint (windowNumber w) = uint iw"
    by (simp only: n_def)
  then have wn: "windowNumber w = ucast iw"
    by (simp only: matches_id)
  have "resolve_spec s1 iw = Some a"
  proof (cases "a \<in> set (windows s)")
    case True
    from find_first_occurrence [OF True, of "\<lambda>b. number_of s b = Some n"] na assms(5)
    have "find (\<lambda>b. number_of s b = Some n) (windows s) = Some a"
      by (simp add: n_def)
    then show ?thesis
      by (simp add: resolve_spec_def i s1_def)
  next
    case False
    from find_no_occurrence [OF False, of "\<lambda>b. number_of s b = Some n"] assms(5)
    have f: "find (\<lambda>b. number_of s b = Some n) (windows s) = None"
      by (simp add: n_def)
    from False assms(6) wn have "registry s (ucast iw) = a" by simp
    moreover from i have "(word_of_int n :: 64 word) = ucast iw"
      using word_of_int_uint_ucast [of iw] by simp
    ultimately have "registry s (word_of_int n) = a" by simp
    with f nn show ?thesis
      by (simp add: resolve_spec_def i s1_def)
  qed
  then have r: "resolve_spec s1 (ToUint32 (Finite (of_int n))) = Some a"
    by (simp only: iw_def)
  from assms(1) have "live s1" by (simp add: s1_def)
  from SetWindowCollectionBehavior_resolve [OF this, of "Finite (of_int n)" y extra'] r assms(2)
  have "\<exists>s2. SetWindowCollectionBehavior s1 (JNumber (Finite (of_int n)) # JNumber y # extra') =
          (s2, Return (JBoolean True)) \<and>
        heap s2 = (heap s)(a \<mapsto> w\<lparr>collectionBehavior := ucast (ToUint32 y)\<rparr>)"
    by (simp add: applyBehavior_spec_def word_of_int_uint_ucast s1_def del: ToUint32.simps)
  with get r show ?thesis
    unfolding n_def by blast
qed

theorem decode_resolve_round_trip_witness:
  "live two_windows \<and> heap two_windows 0x1000 = Some window_A \<and>
   0 \<le> sint (windowNumber window_A) \<and> sint (windowNumber window_A) < 2 ^ 32 \<and>
   takeWhile (\<lambda>b. b \<noteq> 0x1000) (windows two_windows) = [] \<and>
   0x1000 \<in> set (windows two_windows) \<and>
   read_pointer [0, 0x10, 0, 0, 0, 0, 0, 0] = Some 0x1000 \<and>
   (\<exists>s1 s2.
      GetNSWindowFromHandle two_windows [JBuffer [0, 0x10, 0, 0, 0, 0, 0, 0]] =
        (s1, Return (JNumber (Finite (of_int (sint (windowNumber window_A)))))) \<and>
      resolve_spec s1 (ToUint32 (Finite (of_int (sint (windowNumber window_A))))) = Some 0x1000 \<and>
      SetWindowCollectionBehavior s1
        [JNumber (Finite (of_int (sint (windowNumber window_A)))), JNumber (Finite 18)] =
        (s2, Return (JBoolean True)) \<and>
      heap s2 = (heap two_windows)(0x1000 \<mapsto> window_A\<lparr>collectionBehavior := ucast (ToUint32 (Finite 18))\<rparr>)) \<and>
   live beside_deviceless \<and> heap beside_deviceless 0x1000 = Some window_A \<and>
   map (number_of beside_deviceless)
     (takeWhile (\<lambda>b. b \<noteq> 0x1000) (windows beside_deviceless)) = [Some (- 1), Some (- 1)] \<and>
   0x1000 \<in> set (windows beside_deviceless) \<and>
   (\<exists>s1 s2.
      GetNSWindowFromHandle beside_deviceless [JBuffer [0, 0x10, 0, 0, 0, 0, 0, 0]] =
        (s1, Return (JNumber (Finite (of_int (sint (windowNumber window_A)))))) \<and>
      resolve_spec s1 (ToUint32 (Finite (of_int (sint (windowNumber window_A))))) = Some 0x1000 \<and>
      SetWindowCollectionBehavior s1
        [JNumber (Finite (of_int (sint (windowNumber window_A)))), JNumber (Finite 18)] =
        (s2, Return (JBoolean True)) \<and>
      heap s2 = (heap beside_deviceless)(0x1000 \<mapsto> window_A\<lparr>collectionBehavior := ucast (ToUint32 (Finite 18))\<rparr>)) \<and>
   live unlisted_window \<and> heap unlisted_window 0x4000 = Some window_D \<and>
   0 \<le> sint (windowNumber window_D) \<and> sint (windowNumber window_D) < 2 ^ 32 \<and>
   windows unlisted_window = [] \<and>
   registry unlisted_window (windowNumber window_D) = 0x4000 \<and>
   read_pointer [0, 0x40, 0, 0, 0, 0, 0, 0] = Some 0x4000 \<and>
   (\<exists>s1 s2.
      GetNSWindowFromHandle unlisted_window [JBuffer [0, 0x40, 0, 0, 0, 0, 0, 0]] =
        (s1, Return (JNumber (Finite (of_int (sint (windowNumber window_D)))))) \<and>
      resolve_spec s1 (ToUint32 (Finite (of_int (sint (windowNumber window_D))))) = Some 0x4000 \<and>
      SetWindowCollectionBehavior s1
        [JNumber (Finite (of_int (sint (windowNumber window_D)))), JNumber (Finite 18)] =
        (s2, Return (JBoolean True)) \<and>
      heap s2 = (heap unlisted_window)(0x4000 \<mapsto> window_D\<lparr>collectionBehavior := ucast (ToUint32 (Finite 18))\<rparr>))"
proof -
  have a1: "heap two_windows 0x1000 = Some window_A"
    by (simp add: two_windows_def)
  have a2: "0 \<le> sint (windowNumber window_A)" and a3: "sint (windowNumber window_A) < 2 ^ 32"
    by (simp_all add: window_A_def)
  have a4: "\<forall>b \<in> set (takeWhile (\<lambda>b. b \<noteq> 0x1000) (windows two_windows)).
      number_of two_windows b \<noteq> Some (sint (windowNumber window_A))"
    by (simp add: two_windows_def)
  have a5: "0x1000 \<in> set (windows two_windows) \<or> registry two_windows (windowNumber window_A) = 0x1000"
    by (simp add: two_windows_def)
  have a6: "read_pointer [0, 0x10, 0, 0, 0, 0, 0, 0] = Some 0x1000"
    by (simp add: read_pointer_def)
  note a = decode_resolve_round_trip [OF live_two_windows a1 a2 a3 a4 a5 a6, of "[]" "Finite 18" "[]"]
  have b1: "heap beside_deviceless 0x1000 = Some window_A"
    by (simp add: beside_deviceless_def)
  have b4: "\<forall>b \<in> set (takeWhile (\<lambda>b. b \<noteq> 0x1000) (windows beside_deviceless)).
      number_of beside_deviceless b \<noteq> Some (sint (windowNumber window_A))"
    by (simp add: beside_deviceless_def number_of_def window_A_def window_C_def)
  have b5: "0x1000 \<in> set (windows beside_deviceless) \<or>
      registry beside_deviceless (windowNumber window_A) = 0x1000"
    by (simp add: beside_deviceless_def)
  note b = decode_resolve_round_trip [OF live_beside_deviceless b1 a2 a3 b4 b5 a6, of "[]" "Finite 18" "[]"]
  have c1: "heap unlisted_window 0x4000 = Some window_D"
    by (simp add: unlisted_window_def)
  have c2: "0 \<le> sint (windowNumber window_D)" and c3: "sint (windowNumber window_D) < 2 ^ 32"
    by (simp_all add: window_D_def)
  have c4: "\<forall>b \<in> set (takeWhile (\<lambda>b. b \<noteq> 0x4000) (windows unlisted_window)).
      number_of unlisted_window b \<noteq> Some (sint (windowNumber window_D))"
    by (simp add: unlisted_window_def)
  have c5: "0x4000 \<in> set (windows unlisted_window) \<or>
      registry unlisted_window (windowNumber window_D) = 0x4000"
    by (simp add: unlisted_window_def window_D_def)
  have c6: "read_pointer [0, 0x40, 0, 0, 0, 0, 0, 0] = Some 0x4000"
    by (simp add: read_pointer_def)
  note c = decode_resolve_round_trip [OF live_unlisted_window c1 c2 c3 c4 c5 c6, of "[]" "Finite 18" "[]"]
  have a4': "takeWhile (\<lambda>b. b \<noteq> 0x1000) (windows two_windows) = []"
    and a5': "0x1000 \<in> set (windows two_windows)"
    by (simp_all add: two_windows_def)
  have b4': "map (number_of beside_deviceless)
      (takeWhile (\<lambda>b. b \<noteq> 0x1000) (windows beside_deviceless)) = [Some (- 1), Some (- 1)]"
    and b5': "0x1000 \<in> set (windows beside_deviceless)"
    by (simp_all add: beside_deviceless_def number_of_def window_C_def)
  have c4': "windows unlisted_window = []"
    and c5': "registry unlisted_window (windowNumber window_D) = 0x4000"
    by (simp_all add: unlisted_window_def window_D_def)
  from live_two_windows a1 a2 a3 a4' a5' a6 a live_beside_deviceless b1 b4' b5' b
    live_unlisted_window c1 c2 c3 c4' c5' c6 c
  show ?thesis
    by (intro conjI)
qed

text \<open>
  C6 as stated, for every live window, fails on a window without a window device, whose
  number is -1: the decoder returns -1, which \<open>Uint32Value\<close> turns into 4294967295, and
  the call returns \<open>false\<close>.
\<close>

theorem deviceless_window_round_trip_fails:
  "live deviceless_window \<and>
   windows deviceless_window = [0x3000] \<and>
   snd (GetNSWindowFromHandle deviceless_window [JBuffer [0, 0x30, 0, 0, 0, 0, 0, 0]]) =
     Return (JNumber (Finite (- 1))) \<and>
   snd (SetWindowCollectionBehavior
          (fst (GetNSWindowFromHandle deviceless_window [JBuffer [0, 0x30, 0, 0, 0, 0, 0, 0]]))
          [JNumber (Finite (- 1)), JNumber (Finite 18)]) =
     Return (JBoolean False)"
proof -
  have "live deviceless_window"
    by (simp add: live_def deviceless_window_def nil_def)
  moreover have "windows deviceless_window = [0x3000]"
    by (simp add: deviceless_window_def)
  moreover have "snd (GetNSWindowFromHandle deviceless_window [JBuffer [0, 0x30, 0, 0, 0, 0, 0, 0]]) =
     Return (JNumber (Finite (- 1)))"
    by code_simp
  moreover have "snd (SetWindowCollectionBehavior
          (fst (GetNSWindowFromHandle deviceless_window [JBuffer [0, 0x30, 0, 0, 0, 0, 0, 0]]))
          [JNumber (Finite (- 1)), JNumber (Finite 18)]) =
     Return (JBoolean False)"
    by code_simp
  ultimately show ?thesis by (intro conjI)
qed

text \<open>
  Why the windows enumerated before \<open>W\<close> matter: when two windows carry the number 0,
  decoding the second and calling \<open>SetWindowCollectionBehavior\<close> with the result writes
  the flags of the first, which the scan meets first.
\<close>

lemma earlier_window_with_the_number_wins:
  "snd (GetNSWindowFromHandle two_numbered_zero [JBuffer [0, 0x60, 0, 0, 0, 0, 0, 0]]) =
     Return (JNumber (Finite 0)) \<and>
   snd (SetWindowCollectionBehavior two_numbered_zero [JNumber (Finite 0), JNumber (Finite 18)]) =
     Return (JBoolean True) \<and>
   heap (fst (SetWindowCollectionBehavior two_numbered_zero
                [JNumber (Finite 0), JNumber (Finite 18)])) 0x6000 =
     Some \<lparr>windowNumber = 0, collectionBehavior = 0\<rparr> \<and>
   heap (fst (SetWindowCollectionBehavior two_numbered_zero
                [JNumber (Finite 0), JNumber (Finite 18)])) 0x5000 =
     Some \<lparr>windowNumber = 0, collectionBehavior = 18\<rparr>"
  by code_simp

text \<open>
  C7. A call that returns \<open>true\<close> changes one window object only, a window whose
  number equals the id; every other address of the heap holds what it held. In the
  scenario of the specification (windows 42 and 7 open, id 42, mask \<open>0x12\<close>) window 42
  gets the flags \<open>0x12\<close> and window 7 keeps its own.
\<close>

theorem only_matching_window_mutated:
  assumes "live s" and "registry_sound s"
    and "SetWindowCollectionBehavior s (JNumber x # JNumber y # extra) = (s', Return (JBoolean True))"
  shows "\<exists>a w. heap s a = Some w \<and> sint (windowNumber w) = uint (ToUint32 x) \<and>
           heap s' = (heap s)(a \<mapsto> w\<lparr>collectionBehavior := ucast (ToUint32 y)\<rparr>)"
proof -
  from assms(1,3) obtain a where a: "resolve_spec s (ToUint32 x) = Some a"
    and s': "heap s' = applyBehavior_spec a (ToUint32 y) s"
    by (auto simp: SetWindowCollectionBehavior_resolve)
  from resolve_spec_number [OF assms(2) a] obtain w
    where w: "heap s a = Some w" and "sint (windowNumber w) = uint (ToUint32 x)"
    by (auto simp: number_of_def)
  moreover from s' w have "heap s' = (heap s)(a \<mapsto> w\<lparr>collectionBehavior := ucast (ToUint32 y)\<rparr>)"
    by (simp add: applyBehavior_spec_def word_of_int_uint_ucast)
  ultimately show ?thesis by blast
qed

theorem only_matching_window_mutated_witness:
  "live two_windows \<and> registry_sound two_windows \<and>
   snd (SetWindowCollectionBehavior two_windows [JNumber (Finite 42), JNumber (Finite 0x12)]) =
     Return (JBoolean True) \<and>
   (\<exists>a w. heap two_windows a = Some w \<and> sint (windowNumber w) = uint (ToUint32 (Finite 42)) \<and>
      heap (fst (SetWindowCollectionBehavior two_windows [JNumber (Finite 42), JNumber (Finite 0x12)])) =
        (heap two_windows)(a \<mapsto> w\<lparr>collectionBehavior := ucast (ToUint32 (Finite 0x12))\<rparr>)) \<and>
   heap (fst (SetWindowCollectionBehavior two_windows [JNumber (Finite 42), JNumber (Finite 0x12)])) 0x1000 =
     Some \<lparr>windowNumber = 42, collectionBehavior = 0x12\<rparr> \<and>
   heap (fst (SetWindowCollectionBehavior two_windows [JNumber (Finite 42), JNumber (Finite 0x12)])) 0x2000 =
     heap two_windows 0x2000"
proof -
  have r: "snd (SetWindowCollectionBehavior two_windows [JNumber (Finite 42), JNumber (Finite 0x12)]) =
      Return (JBoolean True)"
    by code_simp
  then have "SetWindowCollectionBehavior two_windows [JNumber (Finite 42), JNumber (Finite 0x12)] =
      (fst (SetWindowCollectionBehavior two_windows [JNumber (Finite 42), JNumber (Finite 0x12)]),
       Return (JBoolean True))"
    by (simp add: prod_eq_iff)
  note ex = only_matching_window_mutated [OF live_two_windows registry_sound_two_windows this]
  have a: "heap (fst (SetWindowCollectionBehavior two_windows [JNumber (Finite 42), JNumber (Finite 0x12)])) 0x1000 =
      Some \<lparr>windowNumber = 42, collectionBehavior = 0x12\<rparr>"
    by code_simp
  have b: "heap (fst (SetWindowCollectionBehavior two_windows [JNumber (Finite 42), JNumber (Finite 0x12)])) 0x2000 =
      heap two_windows 0x2000"
    by code_simp
  from live_two_windows registry_sound_two_windows r ex a b show ?thesis
    by (intro conjI)
qed

text \<open>
  C8, as amended. For every identifier and mask: when both are Numbers (the identifier
  may be zero, negative, fractional, NaN, infinite or beyond the \<open>uint32\<close> range) no
  error is raised and the call returns a boolean, \<open>false\<close> exactly when the identifier
  reduced by \<open>Uint32Value\<close> fails to resolve; when the identifier or the mask is not a
  Number, the call ends with the TypeError that \<open>Uint32Value\<close> raises. The statement is
  about how the call ends, which is the same in both builds of the N-API wrapper.
\<close>

theorem identifier_and_mask_outcome:
  "live s \<Longrightarrow>
   snd (SetWindowCollectionBehavior s (i # m # extra)) =
     (case i of
        JNumber x \<Rightarrow>
          (case m of
             JNumber y \<Rightarrow> Return (JBoolean (resolve_spec s (ToUint32 x) \<noteq> None))
           | _ \<Rightarrow> Throw (TypeError ''A number was expected''))
      | _ \<Rightarrow> Throw (TypeError ''A number was expected''))"
proof (cases i)
  case (JNumber x)
  assume "live s"
  with JNumber show ?thesis
    by (cases m) (simp_all add: SetWindowCollectionBehavior_resolve, simp_all add: SetWindowCollectionBehavior_def)
qed (simp_all add: SetWindowCollectionBehavior_def)

theorem identifier_and_mask_outcome_witness:
  "live two_windows \<and>
   resolve_spec two_windows (ToUint32 (Finite 0)) = None \<and>
   snd (SetWindowCollectionBehavior two_windows [JNumber (Finite 0), JNumber (Finite 18)]) =
     Return (JBoolean False) \<and>
   resolve_spec two_windows (ToUint32 NaN) = None \<and>
   snd (SetWindowCollectionBehavior two_windows [JNumber NaN, JNumber (Finite 18)]) =
     Return (JBoolean False) \<and>
   resolve_spec two_windows (ToUint32 (Finite 4294967338)) = Some 0x1000 \<and>
   snd (SetWindowCollectionBehavior two_windows [JNumber (Finite 4294967338), JNumber (Finite 18)]) =
     Return (JBoolean True) \<and>
   snd (SetWindowCollectionBehavior two_windows [JString ''42'', JNumber (Finite 18)]) =
     Throw (TypeError ''A number was expected'') \<and>
   snd (SetWindowCollectionBehavior two_windows [JNumber (Finite 0), JString ''18'']) =
     Throw (TypeError ''A number was expected'')"
proof -
  have r0: "resolve_spec two_windows (ToUint32 (Finite 0)) = None"
    and rn: "resolve_spec two_windows (ToUint32 NaN) = None"
    and r42: "resolve_spec two_windows (ToUint32 (Finite 4294967338)) = Some 0x1000"
    by code_simp+
  from identifier_and_mask_outcome [OF live_two_windows, of "JNumber (Finite 0)" "JNumber (Finite 18)" "[]"]
    identifier_and_mask_outcome [OF live_two_windows, of "JNumber NaN" "JNumber (Finite 18)" "[]"]
    identifier_and_mask_outcome [OF live_two_windows, of "JNumber (Finite 4294967338)" "JNumber (Finite 18)" "[]"]
    identifier_and_mask_outcome [OF live_two_windows, of "JString ''42''" "JNumber (Finite 18)" "[]"]
    identifier_and_mask_outcome [OF live_two_windows, of "JNumber (Finite 0)" "JString ''18''" "[]"]
  show ?thesis
    by (simp add: r0 rn r42 live_two_windows del: ToUint32.simps)
qed

text \<open>
  C8 as stated fails in two ways. An identifier beyond the \<open>uint32\<close> range does not
  simply fail to resolve: \<open>4294967338 = 2^32 + 42\<close> is reduced to 42, resolves to window
  42, and the call returns \<open>true\<close> and rewrites that window's flags. And an error is
  raised for an identifier that is not a Number (a string, \<open>undefined\<close>), as for a mask
  that is not a Number.
\<close>

theorem malformed_identifier_resolves_or_throws:
  "snd (SetWindowCollectionBehavior two_windows [JNumber (Finite 4294967338), JNumber (Finite 18)]) =
     Return (JBoolean True) \<and>
   heap two_windows 0x1000 = Some \<lparr>windowNumber = 42, collectionBehavior = 0x100\<rparr> \<and>
   heap (fst (SetWindowCollectionBehavior two_windows
                [JNumber (Finite 4294967338), JNumber (Finite 18)])) 0x1000 =
     Some \<lparr>windowNumber = 42, collectionBehavior = 18\<rparr> \<and>
   snd (SetWindowCollectionBehavior two_windows [JString ''42'', JNumber (Finite 18)]) =
     Throw (TypeError ''A number was expected'') \<and>
   snd (SetWindowCollectionBehavior two_windows [JUndefined, JNumber (Finite 18)]) =
     Throw (TypeError ''A number was expected'') \<and>
   snd (SetWindowCollectionBehavior two_windows [JNumber (Finite 0), JString ''18'']) =
     Throw (TypeError ''A number was expected'')"
  by code_simp

text \<open>
  C9. \<open>GetNSWindowFromHandle\<close> is read-only: for every input the window objects, the
  window array and the registry are as before, and the only message it can send is
  \<open>windowNumber\<close>, to the window whose pointer the buffer embeds.
\<close>

theorem GetNSWindowFromHandle_reads_only:
  "heap (fst (GetNSWindowFromHandle s info)) = heap s \<and>
   windows (fst (GetNSWindowFromHandle s info)) = windows s \<and>
   registry (fst (GetNSWindowFromHandle s info)) = registry s \<and>
   (msgs (fst (GetNSWindowFromHandle s info)) = msgs s \<or>
    (\<exists>bytes a. info ! 0 = JBuffer bytes \<and> read_pointer bytes = Some a \<and>
       msgs (fst (GetNSWindowFromHandle s info)) = msgs s @ [M_windowNumber a]))"
  by (cases "info ! 0")
    (auto simp: GetNSWindowFromHandle_def get_windowNumber_def split: option.splits)

text \<open>
  C10. The flags written to a resolved window are the second argument reduced modulo
  \<open>2^32\<close>: for every integer \<open>b\<close> passed as the behavior the new flags, read as an
  unsigned number, are \<open>b mod 2^32\<close>.
\<close>

theorem behavior_reduced_modulo_2_32:
  assumes "live s" and "resolve_spec s (ToUint32 x) = Some a"
  shows "map_option (\<lambda>w. uint (collectionBehavior w))
           (heap (fst (SetWindowCollectionBehavior s
                         (JNumber x # JNumber (Finite (of_int b)) # extra))) a) =
         Some (b mod 2 ^ 32)"
proof -
  from resolve_spec_live [OF assms] obtain w where "heap s a = Some w" by auto
  with assms show ?thesis
    by (simp add: SetWindowCollectionBehavior_resolve applyBehavior_spec_def ToUint32_of_int
        word_of_int_uint_ucast uint_widened_of_int del: ToUint32.simps)
qed

theorem behavior_reduced_modulo_2_32_witness:
  "live two_windows \<and> resolve_spec two_windows (ToUint32 (Finite 42)) = Some 0x1000 \<and>
   map_option (\<lambda>w. uint (collectionBehavior w))
     (heap (fst (SetWindowCollectionBehavior two_windows
                   [JNumber (Finite 42), JNumber (Finite (of_int 4294967314))])) 0x1000) =
   Some 0x12 \<and>
   map_option (\<lambda>w. uint (collectionBehavior w))
     (heap (fst (SetWindowCollectionBehavior two_windows
                   [JNumber (Finite 42), JNumber (Finite (of_int (- 1)))])) 0x1000) =
   Some 4294967295"
proof -
  have r: "resolve_spec two_windows (ToUint32 (Finite 42)) = Some 0x1000"
    by code_simp
  have a: "(4294967314 :: int) mod 2 ^ 32 = 0x12" and b: "(- 1 :: int) mod 2 ^ 32 = 4294967295"
    by simp_all
  from behavior_reduced_modulo_2_32 [OF live_two_windows r, of 4294967314 "[]"]
    behavior_reduced_modulo_2_32 [OF live_two_windows r, of "- 1" "[]"]
    live_two_windows r
  show ?thesis
    by (simp only: a b simp_thms)
qed

end
